theory Spec2Isabelle
  imports Complex_Main
begin

section \<open>JavaScript numbers\<close>

text \<open>
  The values a JavaScript \<^verbatim>\<open>number\<close> can take, with rounding idealised away: a finite
  real, the two infinities and NaN. Fields read from route, location and camera objects are
  finite (\<^typ>\<open>real\<close>); results of arithmetic that can leave the finite range
  (division by zero, square root of a negative number, the initial \<^verbatim>\<open>Infinity\<close> of a
  minimum search) are \<open>jsnum\<close>. Signed zeros are not distinguished: a zero is \<open>+0\<close>.
\<close>

datatype jsnum = Num real | PosInf | NegInf | NaN

fun js_neg :: "jsnum \<Rightarrow> jsnum" where
  "js_neg (Num a) = Num (- a)"
| "js_neg PosInf = NegInf"
| "js_neg NegInf = PosInf"
| "js_neg NaN = NaN"

text \<open>\<^verbatim>\<open>x + y\<close>\<close>

fun js_add :: "jsnum \<Rightarrow> jsnum \<Rightarrow> jsnum" where
  "js_add NaN y = NaN"
| "js_add x NaN = NaN"
| "js_add (Num a) (Num b) = Num (a + b)"
| "js_add PosInf NegInf = NaN"
| "js_add NegInf PosInf = NaN"
| "js_add PosInf y = PosInf"
| "js_add x PosInf = PosInf"
| "js_add NegInf y = NegInf"
| "js_add x NegInf = NegInf"

text \<open>An infinity (\<open>PosInf\<close>) times a finite factor: the sign of the factor decides,
  and \<^verbatim>\<open>Infinity * 0\<close> is NaN.\<close>

definition inf_times :: "real \<Rightarrow> jsnum" where
  "inf_times b = (if 0 < b then PosInf else if b < 0 then NegInf else NaN)"

text \<open>\<^verbatim>\<open>x * y\<close>\<close>

fun js_mul :: "jsnum \<Rightarrow> jsnum \<Rightarrow> jsnum" where
  "js_mul NaN y = NaN"
| "js_mul x NaN = NaN"
| "js_mul (Num a) (Num b) = Num (a * b)"
| "js_mul PosInf (Num b) = inf_times b"
| "js_mul NegInf (Num b) = js_neg (inf_times b)"
| "js_mul (Num a) PosInf = inf_times a"
| "js_mul (Num a) NegInf = js_neg (inf_times a)"
| "js_mul PosInf PosInf = PosInf"
| "js_mul NegInf NegInf = PosInf"
| "js_mul PosInf NegInf = NegInf"
| "js_mul NegInf PosInf = NegInf"

text \<open>\<^verbatim>\<open>x / y\<close>: a finite non-zero dividend over zero is an infinity, \<^verbatim>\<open>0 / 0\<close> is NaN.\<close>

fun js_div :: "jsnum \<Rightarrow> jsnum \<Rightarrow> jsnum" where
  "js_div NaN y = NaN"
| "js_div x NaN = NaN"
| "js_div (Num a) (Num b) = (if b = 0 then inf_times a else Num (a / b))"
| "js_div (Num a) PosInf = Num 0"
| "js_div (Num a) NegInf = Num 0"
| "js_div PosInf (Num b) = (if 0 \<le> b then PosInf else NegInf)"
| "js_div NegInf (Num b) = (if 0 \<le> b then NegInf else PosInf)"
| "js_div x y = NaN"

text \<open>\<^verbatim>\<open>x < y\<close>: false as soon as one side is NaN.\<close>

fun js_lt :: "jsnum \<Rightarrow> jsnum \<Rightarrow> bool" where
  "js_lt NaN y = False"
| "js_lt x NaN = False"
| "js_lt (Num a) (Num b) = (a < b)"
| "js_lt x NegInf = False"
| "js_lt PosInf y = False"
| "js_lt NegInf y = True"
| "js_lt x PosInf = True"

text \<open>\<^verbatim>\<open>Math.sqrt\<close> of a finite number.\<close>

definition js_sqrt :: "real \<Rightarrow> jsnum" where
  "js_sqrt x = (if x < 0 then NaN else Num (sqrt x))"

text \<open>\<^verbatim>\<open>Math.atan2(y, x)\<close> of two finite numbers.\<close>

definition atan2 :: "real \<Rightarrow> real \<Rightarrow> real" where
  "atan2 y x =
     (if 0 < x then arctan (y / x)
      else if x < 0 then (if 0 \<le> y then arctan (y / x) + pi else arctan (y / x) - pi)
      else if 0 < y then pi / 2
      else if y < 0 then - (pi / 2)
      else 0)"

section \<open>Types (types/index.ts)\<close>

record Coordinates =
  latitude :: real
  longitude :: real

text \<open>A latitude of the WGS-84 range.\<close>

definition validLatitude :: "Coordinates \<Rightarrow> bool" where
  "validLatitude c = (- 90 \<le> latitude c \<and> latitude c \<le> 90)"

text \<open>\<^verbatim>\<open>maneuver?: { type: string; modifier?: string }\<close>\<close>

type_synonym Maneuver = "string \<times> string option"

record RouteStep =
  instruction :: string
  distance :: real
  duration :: real
  coordinates :: "Coordinates list"
  maneuver :: "Maneuver option"

text \<open>The route's own \<^verbatim>\<open>distance\<close>, \<^verbatim>\<open>duration\<close> and \<^verbatim>\<open>coordinates\<close> carry the
  prefix \<open>route\<close>, the step's fields having taken the plain names.\<close>

record NavigationRoute =
  routeDistance :: real
  routeDuration :: real
  steps :: "RouteStep list"
  routeCoordinates :: "Coordinates list"

section \<open>RoutingService: progress along a route\<close>

text \<open>An access to a property of \<^verbatim>\<open>undefined\<close> throws.\<close>

datatype js_error = TypeError

text \<open>\<^verbatim>\<open>calculateDistance\<close> (haversine). The square roots are NaN outside \<open>[0, 1]\<close>,
  and NaN then goes through \<^verbatim>\<open>atan2\<close> and both products.\<close>

definition calculateDistance :: "Coordinates \<Rightarrow> Coordinates \<Rightarrow> jsnum" where
  "calculateDistance coord1 coord2 =
     (let R = 6371000;
          phi1 = latitude coord1 * pi / 180;
          phi2 = latitude coord2 * pi / 180;
          dphi = (latitude coord2 - latitude coord1) * pi / 180;
          dlambda = (longitude coord2 - longitude coord1) * pi / 180;
          a = sin (dphi / 2) * sin (dphi / 2)
              + cos phi1 * cos phi2 * sin (dlambda / 2) * sin (dlambda / 2)
      in case (js_sqrt a, js_sqrt (1 - a)) of
           (Num y, Num x) \<Rightarrow> Num (R * (2 * atan2 y x))
         | _ \<Rightarrow> NaN)"

record Progress =
  remainingDistance :: jsnum
  remainingTime :: jsnum
  nextTurnInstruction :: "string option"
  nextTurnDistance :: "jsnum option"

text \<open>The loop \<^verbatim>\<open>for (i = currentStepIndex + 1; i < route.steps.length; i++)\<close>, run over
  the steps it visits, on the pair (remainingDistance, remainingTime).\<close>

fun addRemainingSteps :: "RouteStep list \<Rightarrow> jsnum \<times> jsnum \<Rightarrow> jsnum \<times> jsnum" where
  "addRemainingSteps [] acc = acc"
| "addRemainingSteps (s # ss) (rd, rt) =
     addRemainingSteps ss (js_add rd (Num (distance s)), js_add rt (Num (duration s)))"

text \<open>\<^verbatim>\<open>calculateProgress\<close>. Reading the last (or first) element of an empty
  \<^verbatim>\<open>coordinates\<close> array gives \<^verbatim>\<open>undefined\<close>, and \<^verbatim>\<open>calculateDistance\<close> throws a
  TypeError on it.\<close>

definition calculateProgress ::
  "Coordinates \<Rightarrow> NavigationRoute \<Rightarrow> nat \<Rightarrow> js_error + Progress" where
  "calculateProgress currentPosition route currentStepIndex =
     (case
        (if currentStepIndex < length (steps route) then
           (let currentStep = steps route ! currentStepIndex in
            if coordinates currentStep = [] then Inl TypeError
            else
              (let distanceToStepEnd =
                     calculateDistance currentPosition (last (coordinates currentStep));
                   rd = js_add (Num 0) distanceToStepEnd;
                   rt = js_add (Num 0)
                          (js_mul (js_div distanceToStepEnd (Num (distance currentStep)))
                                  (Num (duration currentStep)))
               in Inr (addRemainingSteps (drop (currentStepIndex + 1) (steps route)) (rd, rt))))
         else Inr (Num 0, Num 0))
      of
        Inl e \<Rightarrow> Inl e
      | Inr (rd, rt) \<Rightarrow>
          (if currentStepIndex + 1 < length (steps route) then
             (let nextStep = steps route ! (currentStepIndex + 1) in
              if coordinates nextStep = [] then Inl TypeError
              else Inr \<lparr>remainingDistance = rd, remainingTime = rt,
                        nextTurnInstruction = Some (instruction nextStep),
                        nextTurnDistance =
                          Some (calculateDistance currentPosition (hd (coordinates nextStep)))\<rparr>)
           else Inr \<lparr>remainingDistance = rd, remainingTime = rt,
                     nextTurnInstruction = None, nextTurnDistance = None\<rparr>))"

text \<open>The inner \<^verbatim>\<open>forEach\<close> of \<^verbatim>\<open>findCurrentStepIndex\<close>, over the points of the
  step with the given index, on the pair (minDistance, currentStepIndex).\<close>

fun scanCoordinates ::
  "Coordinates \<Rightarrow> nat \<Rightarrow> Coordinates list \<Rightarrow> jsnum \<times> nat \<Rightarrow> jsnum \<times> nat" where
  "scanCoordinates currentPosition index [] acc = acc"
| "scanCoordinates currentPosition index (coord # rest) (minDistance, currentStepIndex) =
     (let d = calculateDistance currentPosition coord in
      scanCoordinates currentPosition index rest
        (if js_lt d minDistance then (d, index) else (minDistance, currentStepIndex)))"

text \<open>The outer \<^verbatim>\<open>forEach\<close>, over the steps from the given index on.\<close>

fun scanSteps ::
  "Coordinates \<Rightarrow> nat \<Rightarrow> RouteStep list \<Rightarrow> jsnum \<times> nat \<Rightarrow> jsnum \<times> nat" where
  "scanSteps currentPosition index [] acc = acc"
| "scanSteps currentPosition index (step # rest) acc =
     scanSteps currentPosition (index + 1) rest
       (scanCoordinates currentPosition index (coordinates step) acc)"

definition findCurrentStepIndex :: "Coordinates \<Rightarrow> NavigationRoute \<Rightarrow> nat" where
  "findCurrentStepIndex currentPosition route =
     snd (scanSteps currentPosition 0 (steps route) (PosInf, 0))"

section \<open>PerformanceOptimizer: throttling of sensor updates\<close>

text \<open>\<^verbatim>\<open>x >= y\<close>: false as soon as one side is NaN.\<close>

definition js_ge :: "jsnum \<Rightarrow> jsnum \<Rightarrow> bool" where
  "js_ge x y = (x \<noteq> NaN \<and> y \<noteq> NaN \<and> \<not> js_lt x y)"

text \<open>\<^verbatim>\<open>UserLocation\<close>; its fields carry the prefix \<open>loc\<close> where the plain name is taken.
  Times are milliseconds since the epoch, as \<^verbatim>\<open>Date.now()\<close> gives them.\<close>

record UserLocation =
  locCoordinates :: Coordinates
  locHeading :: "real option"
  speed :: "real option"
  locAccuracy :: "real option"
  locTimestamp :: int

record PerformanceOptimizer =
  lastLocationUpdate :: int
  lastOrientationUpdate :: int
  isStationary :: bool
  stationaryStartTime :: int
  lastMapUpdateLocation :: "Coordinates option"

definition LOCATION_UPDATE_INTERVAL :: int where "LOCATION_UPDATE_INTERVAL = 1000"
definition ORIENTATION_UPDATE_INTERVAL :: int where "ORIENTATION_UPDATE_INTERVAL = 100"
definition STATIONARY_THRESHOLD :: int where "STATIONARY_THRESHOLD = 30000"
definition STATIONARY_SPEED_THRESHOLD :: real where "STATIONARY_SPEED_THRESHOLD = 1"
definition MAP_UPDATE_DISTANCE_THRESHOLD :: real where "MAP_UPDATE_DISTANCE_THRESHOLD = 10"


text \<open>\<^verbatim>\<open>updateStationaryState\<close>; \<open>now\<close> is its own reading of the clock, and
  \<^verbatim>\<open>location.speed || 0\<close> reads a missing speed as 0.\<close>

definition updateStationaryState ::
  "int \<Rightarrow> UserLocation \<Rightarrow> PerformanceOptimizer \<Rightarrow> PerformanceOptimizer" where
  "updateStationaryState now location s =
     (let v = (case speed location of None \<Rightarrow> 0 | Some x \<Rightarrow> x) in
      if v < STATIONARY_SPEED_THRESHOLD then
        (if \<not> isStationary s then s\<lparr>isStationary := True, stationaryStartTime := now\<rparr> else s)
      else s\<lparr>isStationary := False, stationaryStartTime := 0\<rparr>)"

text \<open>\<^verbatim>\<open>shouldUpdateLocation\<close>: the decision and the optimizer afterwards. \<open>now\<close> is the
  clock as the method reads it, \<open>now2\<close> as \<^verbatim>\<open>updateStationaryState\<close> reads it a moment
  later.\<close>

definition shouldUpdateLocation ::
  "int \<Rightarrow> int \<Rightarrow> UserLocation \<Rightarrow> PerformanceOptimizer \<Rightarrow> bool \<times> PerformanceOptimizer" where
  "shouldUpdateLocation now now2 location s =
     (if lastLocationUpdate s = 0 then (True, s\<lparr>lastLocationUpdate := now\<rparr>)
      else if now - lastLocationUpdate s < LOCATION_UPDATE_INTERVAL then (False, s)
      else
        (let s1 = updateStationaryState now2 location s in
         if isStationary s1 \<and> now - stationaryStartTime s1 > STATIONARY_THRESHOLD
            \<and> now - lastLocationUpdate s1 < 5000
         then (False, s1)
         else (True, s1\<lparr>lastLocationUpdate := now\<rparr>)))"

definition shouldUpdateOrientation ::
  "int \<Rightarrow> PerformanceOptimizer \<Rightarrow> bool \<times> PerformanceOptimizer" where
  "shouldUpdateOrientation now s =
     (if now - lastOrientationUpdate s < ORIENTATION_UPDATE_INTERVAL then (False, s)
      else (True, s\<lparr>lastOrientationUpdate := now\<rparr>))"

definition shouldUpdateMap ::
  "UserLocation \<Rightarrow> PerformanceOptimizer \<Rightarrow> bool \<times> PerformanceOptimizer" where
  "shouldUpdateMap location s =
     (case lastMapUpdateLocation s of
        None \<Rightarrow> (True, s\<lparr>lastMapUpdateLocation := Some (locCoordinates location)\<rparr>)
      | Some prev \<Rightarrow>
          if js_ge (calculateDistance prev (locCoordinates location))
                   (Num MAP_UPDATE_DISTANCE_THRESHOLD)
          then (True, s\<lparr>lastMapUpdateLocation := Some (locCoordinates location)\<rparr>)
          else (False, s))"

text \<open>\<^verbatim>\<open>isPowerSavingMode\<close>: the body is \<^verbatim>\<open>return false\<close>.\<close>

definition isPowerSavingMode :: "PerformanceOptimizer \<Rightarrow> bool" where
  "isPowerSavingMode s = False"

record AdaptiveIntervals =
  locationInterval :: int
  orientationInterval :: int
  mapUpdateInterval :: int

text \<open>The body of \<^verbatim>\<open>getAdaptiveIntervals\<close> after \<^verbatim>\<open>isPowerSaving\<close> has been read.\<close>

definition adaptiveIntervalsFor :: "bool \<Rightarrow> AdaptiveIntervals" where
  "adaptiveIntervalsFor isPowerSaving =
     (let multiplier = (if isPowerSaving then 2 else 1) in
      \<lparr>locationInterval = LOCATION_UPDATE_INTERVAL * multiplier,
       orientationInterval = ORIENTATION_UPDATE_INTERVAL * multiplier,
       mapUpdateInterval = 500 * multiplier\<rparr>)"

definition getAdaptiveIntervals :: "PerformanceOptimizer \<Rightarrow> AdaptiveIntervals" where
  "getAdaptiveIntervals s = adaptiveIntervalsFor (isPowerSavingMode s)"


section \<open>CarParkingMap: camera control and navigation start\<close>

record ParkingSlot =
  slotId :: string
  slotName :: string
  slotCoordinates :: Coordinates
  capacity :: real
  occupiedSpots :: real
  hourlyPrice :: real
  amenities :: "string list"
  isOpen24Hours :: bool
  openHours :: "(string \<times> string) option"

text \<open>\<^verbatim>\<open>NavigationState\<close>; the three fields it shares with the progress record carry the
  prefix \<open>nav\<close>. The arrival time is a \<^verbatim>\<open>Date\<close>, kept as its millisecond value.\<close>

record NavigationState =
  isNavigating :: bool
  currentRoute :: "NavigationRoute option"
  targetParkingSlot :: "ParkingSlot option"
  currentStepIndex :: nat
  navRemainingDistance :: jsnum
  estimatedTimeArrival :: int
  navNextTurnInstruction :: "string option"
  navNextTurnDistance :: "jsnum option"

record CameraState =
  center :: Coordinates
  zoom :: real
  bearing :: real
  pitch :: real
  isUserControlled :: bool
  lastUserInteraction :: int

definition USER_IDLE_TIMEOUT :: int where "USER_IDLE_TIMEOUT = 10000"

text \<open>
  The state of the component and of the routing service it uses:
  \<^item> the React state (\<open>userLocation\<close>, \<open>selectedParkingSlot\<close>, \<open>isBottomSheetVisible\<close>,
    \<open>navigationState\<close>, \<open>cameraState\<close>);
  \<^item> \<open>userIdleTimeout\<close>: the timer behind \<^verbatim>\<open>userIdleTimeoutRef\<close>, as the time at which
    it is due, \<open>None\<close> when no timer is pending;
  \<^item> \<open>lastCallTime\<close>: the variable of that name inside the closure that \<^verbatim>\<open>throttle\<close>
    returned for the interaction handler now installed (the handler lists
    \<^verbatim>\<open>navigationState.isNavigating\<close> among its dependencies, so the installed handler reads
    the current value of that flag);
  \<^item> \<open>mapMounted\<close>: whether \<^verbatim>\<open>mapRef.current\<close> is set;
  \<^item> \<open>serviceRoute\<close>: \<^verbatim>\<open>routingService.currentRoute\<close>.
\<close>

record CarParkingMap =
  userLocation :: "UserLocation option"
  selectedParkingSlot :: "ParkingSlot option"
  isBottomSheetVisible :: bool
  navigationState :: NavigationState
  cameraState :: CameraState
  userIdleTimeout :: "int option"
  lastCallTime :: int
  mapMounted :: bool
  serviceRoute :: "NavigationRoute option"

text \<open>What a handler shows or asks of the map view.\<close>

datatype Effect =
  Alert string string
| ConsoleError string
| FitToCoordinates "Coordinates list"

text \<open>\<^verbatim>\<open>throttle(func, delay)\<close>: whether the call at \<open>now\<close> goes through to \<open>func\<close>.\<close>

definition throttlePasses :: "int \<Rightarrow> int \<Rightarrow> int \<Rightarrow> bool" where
  "throttlePasses delay lastCall now = (now - lastCall \<ge> delay)"

text \<open>The function handed to \<^verbatim>\<open>throttle\<close> in \<^verbatim>\<open>handleUserMapInteraction\<close>, called at
  \<open>now\<close>; \<open>t\<close> is the clock as the state updater reads it. A cleared timer is no longer
  pending.\<close>

definition userMapInteraction :: "int \<Rightarrow> int \<Rightarrow> CarParkingMap \<Rightarrow> CarParkingMap" where
  "userMapInteraction now t st =
     (let st1 = st\<lparr>cameraState :=
                   (cameraState st)\<lparr>isUserControlled := True, lastUserInteraction := t\<rparr>\<rparr>;
          st2 = st1\<lparr>userIdleTimeout := None\<rparr>
      in if isNavigating (navigationState st2)
         then st2\<lparr>userIdleTimeout := Some (now + USER_IDLE_TIMEOUT)\<rparr>
         else st2)"

text \<open>\<^verbatim>\<open>handleUserMapInteraction\<close>: the throttled handler (delay 100 ms).\<close>

definition handleUserMapInteraction :: "int \<Rightarrow> int \<Rightarrow> CarParkingMap \<Rightarrow> CarParkingMap" where
  "handleUserMapInteraction now t st =
     (if throttlePasses 100 (lastCallTime st) now
      then userMapInteraction now t (st\<lparr>lastCallTime := now\<rparr>)
      else st)"

text \<open>A render after a dependency of the handler changed installs a new closure of
  \<^verbatim>\<open>throttle\<close>, whose \<^verbatim>\<open>lastCallTime\<close> starts at 0.\<close>

definition recreateInteractionHandler :: "CarParkingMap \<Rightarrow> CarParkingMap" where
  "recreateInteractionHandler st = st\<lparr>lastCallTime := 0\<rparr>"

text \<open>A user interaction with the map (\<^verbatim>\<open>onPanDrag\<close>, \<^verbatim>\<open>onRegionChangeComplete\<close>) at
  time \<open>now\<close>: the installed handler is called, and the component is rendered again when a
  state setter was called. The function behind the throttle calls \<^verbatim>\<open>setCameraState\<close>,
  which makes a new \<^verbatim>\<open>cameraState\<close> object; \<^verbatim>\<open>animateToLocation\<close> has the dependency
  list \<^verbatim>\<open>[cameraState]\<close> and is itself a dependency of the interaction handler. So the
  render that follows an interaction let through installs a new closure of the throttle;
  an interaction that the throttle dropped called no setter, and nothing changes.\<close>

definition interactionEvent :: "int \<Rightarrow> int \<Rightarrow> CarParkingMap \<Rightarrow> CarParkingMap" where
  "interactionEvent now t st =
     (if throttlePasses 100 (lastCallTime st) now
      then recreateInteractionHandler (handleUserMapInteraction now t st)
      else handleUserMapInteraction now t st)"

text \<open>The callback given to \<^verbatim>\<open>setTimeout\<close>; once it has run the timer is no longer
  pending.\<close>

definition idleTimeoutCallback :: "CarParkingMap \<Rightarrow> CarParkingMap" where
  "idleTimeoutCallback st =
     st\<lparr>cameraState := (cameraState st)\<lparr>isUserControlled := False, bearing := 0\<rparr>,
        userIdleTimeout := None\<rparr>"

text \<open>The clock reaching \<open>now\<close>: a pending timer that is due by then has fired. Its callback
  calls \<^verbatim>\<open>setCameraState\<close> as well, and the render that follows installs a new closure of
  the throttle.\<close>

definition advanceTo :: "int \<Rightarrow> CarParkingMap \<Rightarrow> CarParkingMap" where
  "advanceTo now st =
     (case userIdleTimeout st of
        Some due \<Rightarrow>
          if due \<le> now then recreateInteractionHandler (idleTimeoutCallback st) else st
      | None \<Rightarrow> st)"

text \<open>User interactions at the given times, in order, each handled after the clock has
  reached its time.\<close>

fun runInteractions :: "int list \<Rightarrow> CarParkingMap \<Rightarrow> CarParkingMap" where
  "runInteractions [] st = st"
| "runInteractions (t # ts) st = runInteractions ts (interactionEvent t t (advanceTo t st))"


text \<open>\<^verbatim>\<open>getRoute\<close>: \<open>fetched\<close> is what the configured provider produced, a route or the
  error it threw; any error is logged and replaced by one with a fixed message.\<close>

definition getRoute :: "string + NavigationRoute \<Rightarrow> string + NavigationRoute" where
  "getRoute fetched =
     (case fetched of
        Inl err \<Rightarrow> Inl ''Failed to fetch route''
      | Inr route \<Rightarrow> Inr route)"

text \<open>\<^verbatim>\<open>eta.setSeconds(eta.getSeconds() + route.duration)\<close> on the date \<open>now\<close>: the
  sum of the date's seconds and the duration, truncated to an integer, replaces the
  seconds of the date (time zone offsets are whole minutes).\<close>

definition etaAfter :: "int \<Rightarrow> real \<Rightarrow> int" where
  "etaAfter now seconds =
     (let s = (now div 1000) mod 60;
          total = real_of_int s + seconds
      in now + 1000 * ((if 0 \<le> total then \<lfloor>total\<rfloor> else \<lceil>total\<rceil>) - s))"

text \<open>\<^verbatim>\<open>handleStartNavigation\<close>, run to its end: the component afterwards and what it
  showed. \<open>fetched\<close> is the outcome of the provider behind \<^verbatim>\<open>getRoute\<close>.\<close>

definition handleStartNavigation ::
  "int \<Rightarrow> string + NavigationRoute \<Rightarrow> ParkingSlot \<Rightarrow> CarParkingMap \<Rightarrow> CarParkingMap \<times> Effect list" where
  "handleStartNavigation now fetched parkingSlot st =
     (case userLocation st of
        None \<Rightarrow> (st, [Alert ''Location Required'' ''Current location is required for navigation.''])
      | Some loc \<Rightarrow>
          (case getRoute fetched of
             Inl err \<Rightarrow>
               (st, [ConsoleError ''Failed to start navigation:'',
                     Alert ''Navigation Error'' ''Failed to calculate route. Please try again.''])
           | Inr route \<Rightarrow>
               (st\<lparr>navigationState :=
                      \<lparr>isNavigating = True,
                       currentRoute = Some route,
                       targetParkingSlot = Some parkingSlot,
                       currentStepIndex = 0,
                       navRemainingDistance = Num (routeDistance route),
                       estimatedTimeArrival = etaAfter now (routeDuration route),
                       navNextTurnInstruction =
                         (case steps route of [] \<Rightarrow> None | s # ss \<Rightarrow> Some (instruction s)),
                       navNextTurnDistance =
                         (case steps route of [] \<Rightarrow> None | s # ss \<Rightarrow> Some (Num (distance s)))\<rparr>,
                   isBottomSheetVisible := False,
                   selectedParkingSlot := None\<rparr>,
                if mapMounted st
                then [FitToCoordinates [locCoordinates loc, slotCoordinates parkingSlot]]
                else [])))"

text \<open>\<^verbatim>\<open>handleEndNavigation\<close>, at time \<open>now\<close>.\<close>

definition handleEndNavigation :: "int \<Rightarrow> CarParkingMap \<Rightarrow> CarParkingMap" where
  "handleEndNavigation now st =
     st\<lparr>navigationState :=
          \<lparr>isNavigating = False, currentRoute = None, targetParkingSlot = None,
           currentStepIndex = 0, navRemainingDistance = Num 0, estimatedTimeArrival = now,
           navNextTurnInstruction = None, navNextTurnDistance = None\<rparr>,
        serviceRoute := None,
        cameraState := (cameraState st)\<lparr>isUserControlled := False, bearing := 0, pitch := 0\<rparr>,
        userIdleTimeout := None\<rparr>"

text \<open>The initial values of the component's state, mounted at time \<open>now\<close>; the camera is
  centred on \<^verbatim>\<open>INITIAL_REGION\<close>.\<close>

definition newCarParkingMap :: "int \<Rightarrow> CarParkingMap" where
  "newCarParkingMap now =
     \<lparr>userLocation = None,
      selectedParkingSlot = None,
      isBottomSheetVisible = False,
      navigationState =
        \<lparr>isNavigating = False, currentRoute = None, targetParkingSlot = None,
         currentStepIndex = 0, navRemainingDistance = Num 0, estimatedTimeArrival = now,
         navNextTurnInstruction = None, navNextTurnDistance = None\<rparr>,
      cameraState =
        \<lparr>center = \<lparr>latitude = 314659 / 10000, longitude = 742734 / 10000\<rparr>,
         zoom = 15, bearing = 0, pitch = 0, isUserControlled = False, lastUserInteraction = 0\<rparr>,
      userIdleTimeout = None,
      lastCallTime = 0,
      mapMounted = True,
      serviceRoute = None\<rparr>"


section \<open>Example values\<close>

definition originPoint :: Coordinates where
  "originPoint = \<lparr>latitude = 0, longitude = 0\<rparr>"

definition antipodePoint :: Coordinates where
  "antipodePoint = \<lparr>latitude = 0, longitude = 180\<rparr>"

definition stepDepart :: RouteStep where
  "stepDepart = \<lparr>instruction = ''Head north on current road'', distance = 100, duration = 60,
                 coordinates = [originPoint], maneuver = Some (''depart'', Some ''left'')\<rparr>"

definition stepArrive :: RouteStep where
  "stepArrive = \<lparr>instruction = ''Arrive at destination'', distance = 200, duration = 120,
                 coordinates = [originPoint], maneuver = Some (''arrive'', Some ''right'')\<rparr>"

definition stepNoGeometry :: RouteStep where
  "stepNoGeometry = \<lparr>instruction = ''Turn right onto Boulevard'', distance = 200, duration = 120,
                     coordinates = [], maneuver = None\<rparr>"

definition stepZeroLength :: RouteStep where
  "stepZeroLength = \<lparr>instruction = ''Arrive at destination'', distance = 0, duration = 60,
                     coordinates = [antipodePoint], maneuver = None\<rparr>"

definition routeOf :: "RouteStep list \<Rightarrow> NavigationRoute" where
  "routeOf ss = \<lparr>routeDistance = sum_list (map distance ss),
                 routeDuration = sum_list (map duration ss),
                 steps = ss,
                 routeCoordinates = concat (map coordinates ss)\<rparr>"

definition movingSample :: UserLocation where
  "movingSample = \<lparr>locCoordinates = originPoint, locHeading = None, speed = Some 5,
                   locAccuracy = None, locTimestamp = 0\<rparr>"


text \<open>An optimizer that accepted a position and a heading sample at time 5000.\<close>

definition trackedOptimizer :: PerformanceOptimizer where
  "trackedOptimizer =
     \<lparr>lastLocationUpdate = 5000, lastOrientationUpdate = 5000, isStationary = False,
      stationaryStartTime = 0, lastMapUpdateLocation = None\<rparr>"


definition exampleSlot :: ParkingSlot where
  "exampleSlot =
     \<lparr>slotId = ''1'', slotName = ''Emporium Mall Parking'', slotCoordinates = antipodePoint,
      capacity = 500, occupiedSpots = 320, hourlyPrice = 50, amenities = [''CCTV''],
      isOpen24Hours = True, openHours = None\<rparr>"

text \<open>The component once a first location has arrived.\<close>

definition locatedMap :: CarParkingMap where
  "locatedMap = (newCarParkingMap 0)\<lparr>userLocation := Some movingSample\<rparr>"

text \<open>The component after a navigation was started at time 1000.\<close>

definition navigatingMap :: CarParkingMap where
  "navigatingMap =
     fst (handleStartNavigation 1000 (Inr (routeOf [stepDepart, stepArrive])) exampleSlot
            locatedMap)"

section \<open>Properties of the JavaScript numbers\<close>

lemma js_add_zero_left: "js_add (Num 0) x = x"
  by (cases x) simp_all

lemma js_add_zero_right: "js_add x (Num 0) = x"
  by (cases x) simp_all

lemma js_add_Num_Num: "js_add (js_add x (Num a)) (Num b) = js_add x (Num (a + b))"
  by (cases x) simp_all

lemma js_lt_irrefl: "\<not> js_lt a a"
  by (cases a) simp_all

lemma js_lt_trans: "js_lt a b \<Longrightarrow> js_lt b c \<Longrightarrow> js_lt a c"
  by (cases a; cases b; cases c) simp_all

lemma js_lt_asym: "js_lt a b \<Longrightarrow> \<not> js_lt b a"
  using js_lt_trans js_lt_irrefl by blast

text \<open>A finite number or NaN over zero, times a finite number, plus a finite number: the
  result is never finite.\<close>

lemma js_not_finite_mul: "q = NaN \<or> q = PosInf \<or> q = NegInf \<Longrightarrow>
    js_mul q (Num b) = NaN \<or> js_mul q (Num b) = PosInf \<or> js_mul q (Num b) = NegInf"
  by (auto simp: inf_times_def split: if_splits)

lemma js_not_finite_add: "q = NaN \<or> q = PosInf \<or> q = NegInf \<Longrightarrow>
    js_add q (Num c) = NaN \<or> js_add q (Num c) = PosInf \<or> js_add q (Num c) = NegInf"
  by auto

lemma js_zero_divisor_not_finite:
  assumes "x = NaN \<or> (\<exists>d. x = Num d)"
  shows "js_add (js_mul (js_div x (Num 0)) (Num b)) (Num c) = NaN
       \<or> js_add (js_mul (js_div x (Num 0)) (Num b)) (Num c) = PosInf
       \<or> js_add (js_mul (js_div x (Num 0)) (Num b)) (Num c) = NegInf"
proof -
  from assms have "js_div x (Num 0) = NaN \<or> js_div x (Num 0) = PosInf
      \<or> js_div x (Num 0) = NegInf"
    by (auto simp: inf_times_def)
  then show ?thesis by (intro js_not_finite_add js_not_finite_mul)
qed

lemma atan2_nonneg: "0 \<le> y \<Longrightarrow> 0 \<le> x \<Longrightarrow> 0 \<le> atan2 y x"
  by (simp add: atan2_def)

section \<open>Properties of the haversine distance\<close>

lemma haversine_cases:
  "(case (js_sqrt a, js_sqrt (1 - a)) of
      (Num y, Num x) \<Rightarrow> Num (R * (2 * atan2 y x))
    | _ \<Rightarrow> NaN)
   = (if 0 \<le> a \<and> a \<le> 1 then Num (R * (2 * atan2 (sqrt a) (sqrt (1 - a)))) else NaN)"
  by (simp add: js_sqrt_def)

text \<open>A distance is NaN or a finite number that is not negative; it is never infinite.\<close>

lemma calculateDistance_cases:
  "calculateDistance p c = NaN \<or> (\<exists>d. calculateDistance p c = Num d \<and> 0 \<le> d)"
  unfolding calculateDistance_def Let_def haversine_cases
  by (simp add: atan2_nonneg)

lemma calculateDistance_same: "calculateDistance c c = Num 0"
  by (simp add: calculateDistance_def js_sqrt_def atan2_def)

lemma calculateDistance_antipode:
  "calculateDistance originPoint antipodePoint = Num (6371000 * pi)"
  by (simp add: calculateDistance_def js_sqrt_def atan2_def originPoint_def antipodePoint_def)

text \<open>Between coordinates with latitudes of the WGS-84 range the argument of the square
  roots lies in \<open>[0, 1]\<close>, and the distance is a number.\<close>

lemma haversine_arg_range:
  fixes p1 p2 l :: real
  assumes "- (pi / 2) \<le> p1" "p1 \<le> pi / 2" "- (pi / 2) \<le> p2" "p2 \<le> pi / 2"
  shows "0 \<le> sin ((p2 - p1) / 2) * sin ((p2 - p1) / 2) + cos p1 * cos p2 * sin l * sin l"
    and "sin ((p2 - p1) / 2) * sin ((p2 - p1) / 2) + cos p1 * cos p2 * sin l * sin l \<le> 1"
proof -
  have c1: "0 \<le> cos p1" and c2: "0 \<le> cos p2"
    using assms by (simp_all add: cos_ge_zero)
  have cc: "0 \<le> cos p1 * cos p2" using c1 c2 by simp
  have sl: "0 \<le> sin l * sin l" by simp
  have "(sin l)\<^sup>2 \<le> 1" using sin_cos_squared_add[of l] zero_le_power2[of "cos l"] by linarith
  then have sl1: "sin l * sin l \<le> 1" by (simp add: power2_eq_square)
  have "0 \<le> cos p1 * cos p2 * (sin l * sin l)" using cc sl by (rule mult_nonneg_nonneg)
  then show "0 \<le> sin ((p2 - p1) / 2) * sin ((p2 - p1) / 2) + cos p1 * cos p2 * sin l * sin l"
    by (simp add: mult.assoc)
  have "p2 - p1 = 2 * ((p2 - p1) / 2)" by argo
  then have "cos (p2 - p1) = cos (2 * ((p2 - p1) / 2))" by (rule arg_cong)
  also have "\<dots> = 1 - 2 * (sin ((p2 - p1) / 2))\<^sup>2" by (rule cos_double_sin)
  finally have "cos (p2 - p1) = 1 - 2 * (sin ((p2 - p1) / 2) * sin ((p2 - p1) / 2))"
    by (simp only: power2_eq_square)
  then have half: "sin ((p2 - p1) / 2) * sin ((p2 - p1) / 2) = (1 - cos (p2 - p1)) / 2"
    by argo
  have "cos p1 * cos p2 * (sin l * sin l) \<le> cos p1 * cos p2 * 1"
    using sl1 cc by (rule mult_left_mono)
  then have le: "cos p1 * cos p2 * sin l * sin l \<le> cos p1 * cos p2"
    by (simp add: mult.assoc)
  have "sin ((p2 - p1) / 2) * sin ((p2 - p1) / 2) + cos p1 * cos p2 * sin l * sin l
        \<le> (1 - cos (p2 - p1)) / 2 + cos p1 * cos p2"
    using half le by argo
  also have "\<dots> = (1 + cos (p1 + p2)) / 2"
    by (simp add: cos_diff cos_add field_simps)
  also have "\<dots> \<le> 1" using cos_le_one[of "p1 + p2"] by simp
  finally show "sin ((p2 - p1) / 2) * sin ((p2 - p1) / 2) + cos p1 * cos p2 * sin l * sin l \<le> 1" .
qed

lemma latitude_radians:
  assumes "validLatitude c"
  shows "- (pi / 2) \<le> latitude c * pi / 180" and "latitude c * pi / 180 \<le> pi / 2"
proof -
  from assms have lo: "- 90 \<le> latitude c" and hi: "latitude c \<le> 90"
    by (simp_all add: validLatitude_def)
  have "(- 90) * (pi / 180) \<le> latitude c * (pi / 180)"
    using lo by (intro mult_right_mono) simp_all
  then show "- (pi / 2) \<le> latitude c * pi / 180" by simp
  have "latitude c * (pi / 180) \<le> 90 * (pi / 180)"
    using hi by (intro mult_right_mono) simp_all
  then show "latitude c * pi / 180 \<le> pi / 2" by simp
qed

lemma calculateDistance_number:
  assumes "validLatitude c1" and "validLatitude c2"
  shows "\<exists>d. calculateDistance c1 c2 = Num d \<and> 0 \<le> d"
proof -
  let ?p1 = "latitude c1 * pi / 180" and ?p2 = "latitude c2 * pi / 180"
  let ?l = "(longitude c2 - longitude c1) * pi / 180 / 2"
  have d: "(latitude c2 - latitude c1) * pi / 180 = ?p2 - ?p1"
    by (simp add: field_simps)
  note range = haversine_arg_range[OF latitude_radians[OF assms(1)] latitude_radians[OF assms(2)],
      of ?l]
  show ?thesis
    unfolding calculateDistance_def Let_def haversine_cases d
    using range by (simp add: atan2_nonneg)
qed

section \<open>Remaining distance and next turn\<close>

lemma addRemainingSteps_sum:
  "addRemainingSteps ss (rd, rt) =
     (js_add rd (Num (sum_list (map distance ss))), js_add rt (Num (sum_list (map duration ss))))"
  by (induction ss arbitrary: rd rt) (simp_all add: js_add_zero_right js_add_Num_Num)

text \<open>A current or following step without a geometry point makes the call throw.\<close>

lemma calculateProgress_throws:
  assumes "i < length (steps r)"
    and "coordinates (steps r ! i) = []
         \<or> (Suc i < length (steps r) \<and> coordinates (steps r ! Suc i) = [])"
  shows "calculateProgress pos r i = Inl TypeError"
  using assms
  by (auto simp: calculateProgress_def Let_def addRemainingSteps_sum)

text \<open>
  C1, as the code has it. Let the current step index be less than the number of steps, and
  let the current step, and the step after it when there is one, have at least one geometry
  point. Then \<open>calculateProgress\<close> returns; its remainingDistance is the haversine distance
  from the position to the last geometry point of the current step plus the sum of the
  distances of all later steps; its nextTurnInstruction is the instruction of the step after
  the current one when that step exists; and nextTurnInstruction and nextTurnDistance are
  absent when the current step is the last.
\<close>

theorem calculateProgress_remaining:
  assumes "i < length (steps r)"
    and "coordinates (steps r ! i) \<noteq> []"
    and "Suc i < length (steps r) \<longrightarrow> coordinates (steps r ! Suc i) \<noteq> []"
  shows "\<exists>p. calculateProgress pos r i = Inr p
           \<and> remainingDistance p =
               js_add (calculateDistance pos (last (coordinates (steps r ! i))))
                      (Num (sum_list (map distance (drop (Suc i) (steps r)))))
           \<and> (if Suc i < length (steps r)
               then nextTurnInstruction p = Some (instruction (steps r ! Suc i))
               else nextTurnInstruction p = None \<and> nextTurnDistance p = None)"
  using assms
  by (simp add: calculateProgress_def Let_def addRemainingSteps_sum js_add_zero_left)

theorem calculateProgress_remaining_witness:
  "\<exists>p. calculateProgress originPoint (routeOf [stepDepart, stepArrive]) 0 = Inr p
      \<and> remainingDistance p = Num 200
      \<and> nextTurnInstruction p = Some ''Arrive at destination''"
  using calculateProgress_remaining [of 0 "routeOf [stepDepart, stepArrive]" originPoint]
  by (simp add: routeOf_def stepDepart_def stepArrive_def calculateDistance_same)

text \<open>
  C1 as stated fails: on a route whose second step has no geometry point, with current step
  index 0 (less than the number of steps, 2), the call throws a TypeError and returns
  nothing.
\<close>

theorem calculateProgress_empty_geometry:
  "calculateProgress originPoint (routeOf [stepDepart, stepNoGeometry]) 0 = Inl TypeError"
  by (simp add: calculateProgress_def routeOf_def stepDepart_def stepNoGeometry_def
      calculateDistance_same)

section \<open>Remaining time\<close>

text \<open>
  C10, as the code has it. Under the conditions of C1 on the route, \<open>calculateProgress\<close>
  returns, and its remainingTime is the distance to the end of the current step divided by
  the step's distance, without a guard, times the step's duration, plus the durations of
  all later steps. When the step's distance is strictly positive the divisor is not zero and
  the quotient is NaN only if the distance to the step's end is itself NaN. When the step's
  distance is 0, remainingTime is never a finite number: it is NaN or an infinity.
\<close>

theorem calculateProgress_time:
  assumes "i < length (steps r)"
    and "coordinates (steps r ! i) \<noteq> []"
    and "Suc i < length (steps r) \<longrightarrow> coordinates (steps r ! Suc i) \<noteq> []"
  shows "\<exists>p. calculateProgress pos r i = Inr p
     \<and> remainingTime p =
         js_add (js_mul (js_div (calculateDistance pos (last (coordinates (steps r ! i))))
                                (Num (distance (steps r ! i))))
                        (Num (duration (steps r ! i))))
                (Num (sum_list (map duration (drop (Suc i) (steps r)))))
     \<and> (0 < distance (steps r ! i) \<longrightarrow>
          (js_div (calculateDistance pos (last (coordinates (steps r ! i))))
                  (Num (distance (steps r ! i))) = NaN)
          = (calculateDistance pos (last (coordinates (steps r ! i))) = NaN))
     \<and> (distance (steps r ! i) = 0 \<longrightarrow>
          remainingTime p = NaN \<or> remainingTime p = PosInf \<or> remainingTime p = NegInf)"
proof -
  let ?s = "steps r ! i"
  let ?dte = "calculateDistance pos (last (coordinates ?s))"
  let ?rest = "sum_list (map duration (drop (Suc i) (steps r)))"
  let ?rt = "js_add (js_mul (js_div ?dte (Num (distance ?s))) (Num (duration ?s))) (Num ?rest)"
  from assms have "\<exists>p. calculateProgress pos r i = Inr p \<and> remainingTime p = ?rt"
    by (simp add: calculateProgress_def Let_def addRemainingSteps_sum js_add_zero_left)
  then obtain p where p: "calculateProgress pos r i = Inr p" "remainingTime p = ?rt"
    by blast
  have positive: "0 < distance ?s \<longrightarrow> (js_div ?dte (Num (distance ?s)) = NaN) = (?dte = NaN)"
    using calculateDistance_cases[of pos "last (coordinates ?s)"] by auto
  have zero: "distance ?s = 0 \<longrightarrow> ?rt = NaN \<or> ?rt = PosInf \<or> ?rt = NegInf"
    using calculateDistance_cases[of pos "last (coordinates ?s)"] js_zero_divisor_not_finite
    by auto
  from p positive zero show ?thesis by auto
qed

theorem calculateProgress_time_witness:
  "(\<exists>p. calculateProgress originPoint (routeOf [stepDepart, stepArrive]) 0 = Inr p
       \<and> remainingTime p = Num 120)
   \<and> (\<exists>p. calculateProgress originPoint (routeOf [stepZeroLength]) 0 = Inr p
       \<and> (remainingTime p = NaN \<or> remainingTime p = PosInf \<or> remainingTime p = NegInf))"
proof -
  have finite: "\<exists>p. calculateProgress originPoint (routeOf [stepDepart, stepArrive]) 0 = Inr p
       \<and> remainingTime p = Num 120"
    using calculateProgress_time [of 0 "routeOf [stepDepart, stepArrive]" originPoint]
    by (simp add: routeOf_def stepDepart_def stepArrive_def calculateDistance_same)
  have infinite: "\<exists>p. calculateProgress originPoint (routeOf [stepZeroLength]) 0 = Inr p
       \<and> (remainingTime p = NaN \<or> remainingTime p = PosInf \<or> remainingTime p = NegInf)"
    using calculateProgress_time [of 0 "routeOf [stepZeroLength]" originPoint]
    by (auto simp: routeOf_def stepZeroLength_def)
  from finite infinite show ?thesis by simp
qed

text \<open>
  C10 as stated fails: on a route whose only step has distance 0 and duration 60 s, with the
  position half the globe away from the step's end, remainingTime is Infinity, which is not
  NaN.
\<close>

theorem calculateProgress_time_infinite:
  "calculateProgress originPoint (routeOf [stepZeroLength]) 0 =
     Inr \<lparr>remainingDistance = Num (6371000 * pi), remainingTime = PosInf,
          nextTurnInstruction = None, nextTurnDistance = None\<rparr>"
  by (simp add: calculateProgress_def routeOf_def stepZeroLength_def
      calculateDistance_antipode inf_times_def)

section \<open>The current step\<close>

text \<open>One step's points: afterwards no point of the step is closer than the minimum, and
  the pair is either untouched or holds this step's index and a strictly smaller distance
  that one of its points has.\<close>

lemma scanCoordinates_min:
  assumes "scanCoordinates pos i cs (m, k) = (m', k')"
  shows "(\<forall>c\<in>set cs. \<not> js_lt (calculateDistance pos c) m')
       \<and> ((m', k') = (m, k)
          \<or> (k' = i \<and> js_lt m' m \<and> (\<exists>c\<in>set cs. calculateDistance pos c = m')))"
  using assms
proof (induction cs arbitrary: m k)
  case Nil
  then show ?case by simp
next
  case (Cons c cs)
  let ?d = "calculateDistance pos c"
  show ?case
  proof (cases "js_lt ?d m")
    case True
    with Cons.prems have "scanCoordinates pos i cs (?d, i) = (m', k')"
      by (simp add: Let_def)
    from Cons.IH[OF this]
    have rest: "\<forall>c\<in>set cs. \<not> js_lt (calculateDistance pos c) m'"
      and alt: "(m', k') = (?d, i)
                \<or> (k' = i \<and> js_lt m' ?d \<and> (\<exists>c\<in>set cs. calculateDistance pos c = m'))"
      by blast+
    from alt have le: "m' = ?d \<or> js_lt m' ?d" and k': "k' = i" by auto
    from le have "\<not> js_lt ?d m'" using js_lt_irrefl js_lt_asym by metis
    moreover from le True have "js_lt m' m" using js_lt_trans by metis
    moreover from alt have "\<exists>c'\<in>set (c # cs). calculateDistance pos c' = m'" by auto
    ultimately show ?thesis using rest k' by simp
  next
    case False
    with Cons.prems have "scanCoordinates pos i cs (m, k) = (m', k')"
      by (simp add: Let_def)
    from Cons.IH[OF this]
    have rest: "\<forall>c\<in>set cs. \<not> js_lt (calculateDistance pos c) m'"
      and alt: "(m', k') = (m, k)
                \<or> (k' = i \<and> js_lt m' m \<and> (\<exists>c\<in>set cs. calculateDistance pos c = m'))"
      by blast+
    from alt have le: "m' = m \<or> js_lt m' m" by auto
    with False have "\<not> js_lt ?d m'" using js_lt_trans by metis
    moreover from alt have "(m', k') = (m, k)
        \<or> (k' = i \<and> js_lt m' m \<and> (\<exists>c'\<in>set (c # cs). calculateDistance pos c' = m'))"
      by auto
    ultimately show ?thesis using rest by simp
  qed
qed

text \<open>All steps from index \<open>i\<close> on: the same, with the step that set the minimum being
  the first one to hold a point at that distance.\<close>

lemma scanSteps_min:
  assumes "scanSteps pos i ss (m, k) = (m', k')"
  shows "(\<forall>s\<in>set ss. \<forall>c\<in>set (coordinates s). \<not> js_lt (calculateDistance pos c) m')
       \<and> ((m', k') = (m, k)
          \<or> (\<exists>j<length ss. k' = i + j \<and> js_lt m' m
                \<and> (\<exists>c\<in>set (coordinates (ss ! j)). calculateDistance pos c = m')
                \<and> (\<forall>j'<j. \<forall>c\<in>set (coordinates (ss ! j')). calculateDistance pos c \<noteq> m')))"
  using assms
proof (induction ss arbitrary: i m k)
  case Nil
  then show ?case by simp
next
  case (Cons s ss)
  obtain m1 k1 where acc1: "scanCoordinates pos i (coordinates s) (m, k) = (m1, k1)"
    by (cases "scanCoordinates pos i (coordinates s) (m, k)")
  with Cons.prems have rest: "scanSteps pos (Suc i) ss (m1, k1) = (m', k')"
    by simp
  note inner = scanCoordinates_min[OF acc1]
  note outer = Cons.IH[OF rest]
  from inner have here: "\<forall>c\<in>set (coordinates s). \<not> js_lt (calculateDistance pos c) m1"
    and step1: "(m1, k1) = (m, k) \<or> (k1 = i \<and> js_lt m1 m
                  \<and> (\<exists>c\<in>set (coordinates s). calculateDistance pos c = m1))"
    by blast+
  from outer
  have there: "\<forall>s\<in>set ss. \<forall>c\<in>set (coordinates s). \<not> js_lt (calculateDistance pos c) m'"
    and step2: "(m', k') = (m1, k1) \<or> (\<exists>j<length ss. k' = Suc i + j \<and> js_lt m' m1
                \<and> (\<exists>c\<in>set (coordinates (ss ! j)). calculateDistance pos c = m')
                \<and> (\<forall>j'<j. \<forall>c\<in>set (coordinates (ss ! j')). calculateDistance pos c \<noteq> m'))"
    by blast+
  have le: "m' = m1 \<or> js_lt m' m1" using step2 by auto
  have first: "\<forall>c\<in>set (coordinates s). \<not> js_lt (calculateDistance pos c) m'"
    using here le js_lt_trans by blast
  have second: "(m', k') = (m, k)
          \<or> (\<exists>j<length (s # ss). k' = i + j \<and> js_lt m' m
                \<and> (\<exists>c\<in>set (coordinates ((s # ss) ! j)). calculateDistance pos c = m')
                \<and> (\<forall>j'<j. \<forall>c\<in>set (coordinates ((s # ss) ! j')).
                      calculateDistance pos c \<noteq> m'))"
  proof (cases "(m', k') = (m1, k1)")
    case True
    show ?thesis
    proof (cases "(m1, k1) = (m, k)")
      case True
      with \<open>(m', k') = (m1, k1)\<close> show ?thesis by simp
    next
      case False
      with step1 have "k1 = i" "js_lt m1 m"
          "\<exists>c\<in>set (coordinates s). calculateDistance pos c = m1"
        by auto
      with True have "0 < length (s # ss) \<and> k' = i + 0 \<and> js_lt m' m
                \<and> (\<exists>c\<in>set (coordinates ((s # ss) ! 0)). calculateDistance pos c = m')
                \<and> (\<forall>j'<0. \<forall>c\<in>set (coordinates ((s # ss) ! j')).
                      calculateDistance pos c \<noteq> m')"
        by simp
      then show ?thesis by blast
    qed
  next
    case False
    with step2 obtain j where j: "j < length ss" "k' = Suc i + j" "js_lt m' m1"
        "\<exists>c\<in>set (coordinates (ss ! j)). calculateDistance pos c = m'"
        "\<forall>j'<j. \<forall>c\<in>set (coordinates (ss ! j')). calculateDistance pos c \<noteq> m'"
      by auto
    have lt: "js_lt m' m" using step1 j(3) js_lt_trans by auto
    have early: "\<forall>j'<Suc j. \<forall>c\<in>set (coordinates ((s # ss) ! j')).
                   calculateDistance pos c \<noteq> m'"
    proof (intro allI impI ballI)
      fix j' c
      assume "j' < Suc j" and c: "c \<in> set (coordinates ((s # ss) ! j'))"
      show "calculateDistance pos c \<noteq> m'"
      proof (cases j')
        case 0
        with c here have "\<not> js_lt (calculateDistance pos c) m1" by simp
        with j(3) show ?thesis by auto
      next
        case (Suc n)
        with \<open>j' < Suc j\<close> c j(5) show ?thesis by simp
      qed
    qed
    have "Suc j < length (s # ss) \<and> k' = i + Suc j \<and> js_lt m' m
                \<and> (\<exists>c\<in>set (coordinates ((s # ss) ! Suc j)). calculateDistance pos c = m')
                \<and> (\<forall>j'<Suc j. \<forall>c\<in>set (coordinates ((s # ss) ! j')).
                      calculateDistance pos c \<noteq> m')"
      using j lt early by simp
    then show ?thesis by blast
  qed
  from first there second show ?case by simp
qed

text \<open>When no point has a distance that is a number (the route has no step, or no geometry
  point, or only points at a distance that is NaN), the result is the initial index 0.\<close>

lemma findCurrentStepIndex_no_point:
  assumes "\<forall>j<length (steps r). \<forall>c\<in>set (coordinates (steps r ! j)).
             calculateDistance pos c = NaN"
  shows "findCurrentStepIndex pos r = 0"
proof -
  obtain m' k' where res: "scanSteps pos 0 (steps r) (PosInf, 0) = (m', k')"
    by (cases "scanSteps pos 0 (steps r) (PosInf, 0)")
  then have k': "findCurrentStepIndex pos r = k'"
    by (simp add: findCurrentStepIndex_def)
  have "(m', k') = (PosInf, 0)"
  proof (rule ccontr)
    assume "(m', k') \<noteq> (PosInf, 0)"
    with scanSteps_min[OF res] obtain j c where "j < length (steps r)"
        "c \<in> set (coordinates (steps r ! j))" "calculateDistance pos c = m'" "js_lt m' PosInf"
      by auto
    with assms have "js_lt NaN PosInf" by auto
    then show False by simp
  qed
  with k' show ?thesis by simp
qed

text \<open>
  C2, as the code has it. For every position and every route in which some geometry point
  has a haversine distance to the position that is a number: \<open>findCurrentStepIndex\<close> returns
  the index of a step of the route; that step contains a geometry point whose distance is a
  number and globally minimal (no geometry point of any step is strictly closer); and no
  step before the returned one contains a point at that distance, so that among the steps
  with a point at the minimal distance the first in iteration order is returned. The result
  is a function of position and route.
\<close>

theorem findCurrentStepIndex_closest:
  assumes "\<exists>j<length (steps r). \<exists>c\<in>set (coordinates (steps r ! j)).
             calculateDistance pos c \<noteq> NaN"
  shows "findCurrentStepIndex pos r < length (steps r)
       \<and> (\<exists>c\<in>set (coordinates (steps r ! findCurrentStepIndex pos r)).
             calculateDistance pos c \<noteq> NaN
           \<and> (\<forall>j<length (steps r). \<forall>c'\<in>set (coordinates (steps r ! j)).
                 \<not> js_lt (calculateDistance pos c') (calculateDistance pos c))
           \<and> (\<forall>j<findCurrentStepIndex pos r. \<forall>c'\<in>set (coordinates (steps r ! j)).
                 calculateDistance pos c' \<noteq> calculateDistance pos c))"
proof -
  obtain m' k' where res: "scanSteps pos 0 (steps r) (PosInf, 0) = (m', k')"
    by (cases "scanSteps pos 0 (steps r) (PosInf, 0)")
  then have k': "findCurrentStepIndex pos r = k'"
    by (simp add: findCurrentStepIndex_def)
  note facts = scanSteps_min[OF res]
  from facts
  have all: "\<forall>s\<in>set (steps r). \<forall>c\<in>set (coordinates s). \<not> js_lt (calculateDistance pos c) m'"
    by blast
  from assms obtain j0 c0 where c0: "j0 < length (steps r)"
      "c0 \<in> set (coordinates (steps r ! j0))" "calculateDistance pos c0 \<noteq> NaN"
    by blast
  then obtain d0 where "calculateDistance pos c0 = Num d0"
    using calculateDistance_cases[of pos c0] by auto
  moreover have "\<not> js_lt (calculateDistance pos c0) m'"
    using all c0 nth_mem by blast
  ultimately have "m' \<noteq> PosInf" by auto
  with facts obtain j where j: "j < length (steps r)" "k' = j" "js_lt m' PosInf"
      "\<exists>c\<in>set (coordinates (steps r ! j)). calculateDistance pos c = m'"
      "\<forall>j'<j. \<forall>c\<in>set (coordinates (steps r ! j')). calculateDistance pos c \<noteq> m'"
    by auto
  from j(4) obtain c where c: "c \<in> set (coordinates (steps r ! j))"
      "calculateDistance pos c = m'"
    by blast
  have "m' \<noteq> NaN" using j(3) by (cases m') simp_all
  moreover have "\<forall>j<length (steps r). \<forall>c'\<in>set (coordinates (steps r ! j)).
          \<not> js_lt (calculateDistance pos c') (calculateDistance pos c)"
    using all c(2) nth_mem by blast
  ultimately show ?thesis using j c k' by auto
qed

theorem findCurrentStepIndex_closest_witness:
  "findCurrentStepIndex originPoint (routeOf [stepDepart, stepArrive]) = 0"
proof -
  let ?r = "routeOf [stepDepart, stepArrive]"
  let ?k = "findCurrentStepIndex originPoint ?r"
  have pts: "coordinates (steps ?r ! 0) = [originPoint]"
    "coordinates (steps ?r ! Suc 0) = [originPoint]" "length (steps ?r) = Suc (Suc 0)"
    by (simp_all add: routeOf_def stepDepart_def stepArrive_def)
  have "\<exists>j<length (steps ?r). \<exists>c\<in>set (coordinates (steps ?r ! j)).
          calculateDistance originPoint c \<noteq> NaN"
    by (rule exI[of _ 0]) (simp add: pts calculateDistance_same)
  from findCurrentStepIndex_closest [OF this]
  obtain c where k: "?k < Suc (Suc 0)"
    and c: "c \<in> set (coordinates (steps ?r ! ?k))"
    and first: "\<forall>j<?k. \<forall>c'\<in>set (coordinates (steps ?r ! j)).
                  calculateDistance originPoint c' \<noteq> calculateDistance originPoint c"
    unfolding pts(3) by blast
  show ?thesis
  proof (rule ccontr)
    assume "?k \<noteq> 0"
    with k have one: "?k = Suc 0" by simp
    with c pts have "c = originPoint" by simp
    moreover from first one pts
    have "calculateDistance originPoint originPoint \<noteq> calculateDistance originPoint c"
      by simp
    ultimately show False by simp
  qed
qed

text \<open>
  C2 as stated fails: on a route whose only step has no geometry point the search returns
  index 0, the index of a step that contains no geometry point at all, and so not the
  closest one.
\<close>

theorem findCurrentStepIndex_no_geometry:
  "findCurrentStepIndex originPoint (routeOf [stepNoGeometry]) = 0
   \<and> coordinates (steps (routeOf [stepNoGeometry]) ! 0) = []"
  by (simp add: findCurrentStepIndex_def routeOf_def stepNoGeometry_def)

section \<open>The position gate\<close>


lemma updateStationaryState_lastLocationUpdate:
  "lastLocationUpdate (updateStationaryState now2 loc s) = lastLocationUpdate s"
  by (simp add: updateStationaryState_def Let_def)

text \<open>The decision of the position gate once a sample has been accepted before.\<close>

lemma shouldUpdateLocation_decision:
  "lastLocationUpdate s \<noteq> 0 \<Longrightarrow>
     fst (shouldUpdateLocation now now2 loc s) =
       (1000 \<le> now - lastLocationUpdate s
        \<and> \<not> (isStationary (updateStationaryState now2 loc s)
             \<and> 30000 < now - stationaryStartTime (updateStationaryState now2 loc s)
             \<and> now - lastLocationUpdate s < 5000))"
  by (simp add: shouldUpdateLocation_def Let_def LOCATION_UPDATE_INTERVAL_def
      STATIONARY_THRESHOLD_def updateStationaryState_lastLocationUpdate)



section \<open>The stationary classification\<close>




section \<open>Power saving\<close>

text \<open>
  C6, as the code has it. \<open>isPowerSavingMode\<close> answers false for every optimizer, and nothing
  sets it. \<open>getAdaptiveIntervals\<close> therefore always reports the default intervals 1000, 100
  and 500 ms (it would report each of them doubled were the mode active). The gates do not
  consult these intervals: the heading gate accepts exactly when at least 100 ms have passed,
  the position gate compares against 1000 ms (and 5000 ms when stationary for more than
  30 s), and the map gate accepts when the position has moved at least 10 m from the last
  reference point.
\<close>

theorem power_saving_fixed:
  "\<not> isPowerSavingMode s
   \<and> getAdaptiveIntervals s
       = \<lparr>locationInterval = 1000, orientationInterval = 100, mapUpdateInterval = 500\<rparr>
   \<and> adaptiveIntervalsFor True
       = \<lparr>locationInterval = 2000, orientationInterval = 200, mapUpdateInterval = 1000\<rparr>
   \<and> fst (shouldUpdateOrientation now s) = (100 \<le> now - lastOrientationUpdate s)
   \<and> (lastLocationUpdate s \<noteq> 0 \<longrightarrow>
        fst (shouldUpdateLocation now now2 loc s) =
          (1000 \<le> now - lastLocationUpdate s
           \<and> \<not> (isStationary (updateStationaryState now2 loc s)
                \<and> 30000 < now - stationaryStartTime (updateStationaryState now2 loc s)
                \<and> now - lastLocationUpdate s < 5000)))
   \<and> (lastMapUpdateLocation s = Some prev \<longrightarrow>
        fst (shouldUpdateMap loc s) =
          js_ge (calculateDistance prev (locCoordinates loc)) (Num 10))"
proof -
  have flag: "\<not> isPowerSavingMode s"
    by (simp add: isPowerSavingMode_def)
  have reported: "getAdaptiveIntervals s
       = \<lparr>locationInterval = 1000, orientationInterval = 100, mapUpdateInterval = 500\<rparr>"
    by (simp add: getAdaptiveIntervals_def adaptiveIntervalsFor_def isPowerSavingMode_def
        LOCATION_UPDATE_INTERVAL_def ORIENTATION_UPDATE_INTERVAL_def)
  have doubled: "adaptiveIntervalsFor True
       = \<lparr>locationInterval = 2000, orientationInterval = 200, mapUpdateInterval = 1000\<rparr>"
    by (simp add: adaptiveIntervalsFor_def LOCATION_UPDATE_INTERVAL_def
        ORIENTATION_UPDATE_INTERVAL_def)
  have headingGate: "fst (shouldUpdateOrientation now s) = (100 \<le> now - lastOrientationUpdate s)"
    by (auto simp: shouldUpdateOrientation_def ORIENTATION_UPDATE_INTERVAL_def)
  have mapGate: "lastMapUpdateLocation s = Some prev \<longrightarrow>
        fst (shouldUpdateMap loc s) =
          js_ge (calculateDistance prev (locCoordinates loc)) (Num 10)"
    by (simp add: shouldUpdateMap_def MAP_UPDATE_DISTANCE_THRESHOLD_def)
  from flag reported doubled headingGate mapGate shouldUpdateLocation_decision[of s now now2 loc]
  show ?thesis by blast
qed

theorem power_saving_fixed_witness:
  "fst (shouldUpdateOrientation 5150 trackedOptimizer)
   \<and> fst (shouldUpdateLocation 6500 6500 movingSample trackedOptimizer)
   \<and> fst (shouldUpdateMap movingSample
            (trackedOptimizer\<lparr>lastMapUpdateLocation := Some antipodePoint\<rparr>))"
proof -
  have far: "calculateDistance antipodePoint originPoint = Num (6371000 * pi)"
    by (simp add: calculateDistance_def js_sqrt_def atan2_def originPoint_def antipodePoint_def)
  have "(10::real) \<le> 6371000 * 2" by simp
  also have "\<dots> \<le> 6371000 * pi" using pi_ge_two by simp
  finally have big: "\<not> 6371000 * pi < (10::real)" by simp
  from power_saving_fixed [of trackedOptimizer 5150 5150 movingSample antipodePoint]
    power_saving_fixed [of trackedOptimizer 6500 6500 movingSample antipodePoint]
    power_saving_fixed [of "trackedOptimizer\<lparr>lastMapUpdateLocation := Some antipodePoint\<rparr>"
      6500 6500 movingSample antipodePoint]
  show ?thesis
    by (simp add: trackedOptimizer_def movingSample_def updateStationaryState_def
        STATIONARY_SPEED_THRESHOLD_def js_ge_def far big)
qed

text \<open>
  C6 as stated fails: no optimizer has the power-saving mode active, and with the mode
  inactive as always the gates use the plain thresholds: a heading sample 150 ms after the
  last accepted one and a position sample 1500 ms after the last accepted one are both
  accepted, which doubled thresholds (200 ms, 2000 ms) would reject.
\<close>

theorem power_saving_never_active:
  "\<not> (\<exists>s. isPowerSavingMode s)
   \<and> fst (shouldUpdateOrientation 5150 trackedOptimizer)
   \<and> fst (shouldUpdateLocation 6500 6500 movingSample trackedOptimizer)"
  by (simp add: isPowerSavingMode_def shouldUpdateOrientation_def shouldUpdateLocation_def
      updateStationaryState_def trackedOptimizer_def movingSample_def
      ORIENTATION_UPDATE_INTERVAL_def LOCATION_UPDATE_INTERVAL_def
      STATIONARY_SPEED_THRESHOLD_def)

section \<open>Starting a navigation\<close>

text \<open>
  C8. When the route provider fails, \<open>getRoute\<close> hands the failure on to its caller (as the
  error ``Failed to fetch route''), and \<open>handleStartNavigation\<close> leaves the whole component
  as it was: the navigation state, the camera state and the route stored in the routing
  service are exactly what they were before. With a current location at hand the failure is
  shown to the user as the alert ``Navigation Error''.
\<close>

theorem start_navigation_failure:
  "getRoute (Inl e) = Inl ''Failed to fetch route''
   \<and> fst (handleStartNavigation now (Inl e) slot st) = st
   \<and> navigationState (fst (handleStartNavigation now (Inl e) slot st)) = navigationState st
   \<and> cameraState (fst (handleStartNavigation now (Inl e) slot st)) = cameraState st
   \<and> serviceRoute (fst (handleStartNavigation now (Inl e) slot st)) = serviceRoute st
   \<and> (userLocation st \<noteq> None \<longrightarrow>
        snd (handleStartNavigation now (Inl e) slot st)
          = [ConsoleError ''Failed to start navigation:'',
             Alert ''Navigation Error'' ''Failed to calculate route. Please try again.''])"
proof -
  have surfaced: "getRoute (Inl e) = Inl ''Failed to fetch route''"
    by (simp add: getRoute_def)
  have unchanged: "fst (handleStartNavigation now (Inl e) slot st) = st"
    by (simp add: handleStartNavigation_def getRoute_def split: option.split)
  have shown: "userLocation st \<noteq> None \<longrightarrow>
        snd (handleStartNavigation now (Inl e) slot st)
          = [ConsoleError ''Failed to start navigation:'',
             Alert ''Navigation Error'' ''Failed to calculate route. Please try again.'']"
    by (auto simp: handleStartNavigation_def getRoute_def)
  from surfaced unchanged shown show ?thesis by simp
qed

theorem start_navigation_failure_witness:
  "handleStartNavigation 1000 (Inl ''Network request failed'') exampleSlot locatedMap
     = (locatedMap,
        [ConsoleError ''Failed to start navigation:'',
         Alert ''Navigation Error'' ''Failed to calculate route. Please try again.''])
   \<and> isNavigating (navigationState navigatingMap)"
proof -
  have located: "userLocation locatedMap \<noteq> None"
    by (simp add: locatedMap_def)
  have started: "isNavigating (navigationState navigatingMap)"
    by (simp add: navigatingMap_def handleStartNavigation_def getRoute_def locatedMap_def)
  from start_navigation_failure [of "''Network request failed''" 1000 exampleSlot locatedMap]
    located started
  show ?thesis by (simp add: prod_eq_iff)
qed

section \<open>Camera control\<close>


lemma handleUserMapInteraction_dropped:
  "\<not> throttlePasses 100 (lastCallTime st) now \<Longrightarrow> handleUserMapInteraction now t st = st"
  by (simp add: handleUserMapInteraction_def)




lemma advanceTo_lastCallTime: "lastCallTime st = 0 \<Longrightarrow> lastCallTime (advanceTo now st) = 0"
  by (simp add: advanceTo_def idleTimeoutCallback_def recreateInteractionHandler_def
      split: option.split)







text \<open>The throttle is a new closure when the component is mounted, and it is one again
  after every handler of the component.\<close>

lemma interactionEvent_lastCallTime:
  "lastCallTime st = 0 \<Longrightarrow> lastCallTime (interactionEvent now t st) = 0"
  by (simp add: interactionEvent_def recreateInteractionHandler_def
      handleUserMapInteraction_dropped)

lemma new_closure_kept:
  "lastCallTime (newCarParkingMap t0) = 0"
  "lastCallTime st = 0 \<Longrightarrow> lastCallTime (fst (handleStartNavigation now fetched slot st)) = 0"
  "lastCallTime st = 0 \<Longrightarrow> lastCallTime (handleEndNavigation now st) = 0"
  by (simp_all add: newCarParkingMap_def handleStartNavigation_def handleEndNavigation_def
      split: option.split sum.split)

lemma runInteractions_lastCallTime:
  "lastCallTime st = 0 \<Longrightarrow> lastCallTime (runInteractions ts st) = 0"
proof (induction ts arbitrary: st)
  case Nil
  then show ?case by simp
next
  case (Cons t ts)
  from Cons.prems have "lastCallTime (interactionEvent t t (advanceTo t st)) = 0"
    by (intro interactionEvent_lastCallTime advanceTo_lastCallTime)
  from Cons.IH[OF this] show ?case by simp
qed



end
